theory Spec2Isabelle
  imports Complex_Main
begin

section \<open>The display composable (packages/vuetify/src/composables/display.ts)\<close>

subsection \<open>Numbers and comparisons\<close>

text \<open>
  A JavaScript \<open>number\<close> that is finite is a real; the comparisons of the source only
  order such numbers. A property that is missing from an object reads as \<open>undefined\<close>,
  which \<open><\<close> and \<open>>=\<close> convert to NaN: the comparison is then false, whatever the other
  side. A missing value is \<open>None\<close> here, and the two comparisons say what they do with it.
\<close>

type_synonym number = real

definition lt :: "number \<Rightarrow> number option \<Rightarrow> bool" where
  "lt a b = (case b of None \<Rightarrow> False | Some y \<Rightarrow> a < y)"

definition ge :: "number \<Rightarrow> number option \<Rightarrow> bool" where
  "ge a b = (case b of None \<Rightarrow> False | Some y \<Rightarrow> a \<ge> y)"

subsection \<open>Types\<close>

text \<open>\<open>DisplayBreakpoint = 'xs' | 'sm' | 'md' | 'lg' | 'xl'\<close>\<close>

datatype DisplayBreakpoint = XS | SM | MD | LG | XL

text \<open>
  \<open>DisplayThresholds\<close> declares five numbers, but the object that reaches the code is
  built from \<open>Partial<DisplayThresholds>\<close> values and is read by name
  (\<open>thresholds[mobileBreakpoint]\<close>): it is a dictionary from breakpoint names to numbers,
  in which a name may be missing.
\<close>

type_synonym DisplayThresholds = "DisplayBreakpoint \<rightharpoonup> number"

text \<open>\<open>number | DisplayBreakpoint\<close>, told apart by \<open>typeof ... === 'number'\<close>.\<close>

datatype MobileBreakpoint = Number number | Breakpoint DisplayBreakpoint

record DisplayOptions =
  o_mobileBreakpoint :: "MobileBreakpoint option"
  o_thresholds :: "DisplayThresholds option"

record InternalDisplayOptions =
  i_mobileBreakpoint :: MobileBreakpoint
  i_thresholds :: DisplayThresholds

record DisplayPlatform =
  android :: bool
  ios :: bool
  cordova :: bool
  electron :: bool
  chrome :: bool
  edge :: bool
  firefox :: bool
  opera :: bool
  win :: bool
  mac :: bool
  linux :: bool
  intersection :: bool
  touch :: bool
  ssr :: bool

record DisplayInstance =
  xs :: bool
  sm :: bool
  md :: bool
  lg :: bool
  xl :: bool
  smAndDown :: bool
  smAndUp :: bool
  mdAndDown :: bool
  mdAndUp :: bool
  lgAndDown :: bool
  lgAndUp :: bool
  name :: DisplayBreakpoint
  height :: number
  width :: number
  mobile :: bool
  mobileBreakpoint :: MobileBreakpoint
  platform :: DisplayPlatform
  thresholds :: DisplayThresholds

subsection \<open>The host: globals and window\<close>

text \<open>
  The three constants imported from \<open>@/util/globals\<close> are parameters of the model.
  \<open>Window\<close> holds what the code reads from \<open>document.documentElement\<close>, \<open>window\<close> and
  \<open>window.navigator\<close>; none of it is read when \<open>IN_BROWSER\<close> is false.
\<close>

record Globals =
  IN_BROWSER :: bool
  SUPPORTS_INTERSECTION :: bool
  SUPPORTS_TOUCH :: bool

record Window =
  clientWidth :: number
  innerWidth :: number
  clientHeight :: number
  innerHeight :: number
  userAgent :: string

subsection \<open>Options\<close>

text \<open>
  \<open>defaultDisplayOptions\<close> is declared with the type \<open>DisplayOptions\<close> and gives both
  fields; its thresholds have no entry for \<open>xl\<close>.
\<close>

definition defaultDisplayOptions :: InternalDisplayOptions where
  "defaultDisplayOptions =
     \<lparr> i_mobileBreakpoint = Breakpoint MD,
       i_thresholds = [XS \<mapsto> 600, SM \<mapsto> 960, MD \<mapsto> 1280, LG \<mapsto> 1920] \<rparr>"

text \<open>The same object read at its declared type, every field optional.\<close>

definition as_DisplayOptions :: "InternalDisplayOptions \<Rightarrow> DisplayOptions" where
  "as_DisplayOptions d =
     \<lparr> o_mobileBreakpoint = Some (i_mobileBreakpoint d),
       o_thresholds = Some (i_thresholds d) \<rparr>"

text \<open>
  Modelled from the spec: \<open>mergeDeep\<close> of \<open>@/util\<close>, which is not among the sources.
  The spec: unspecified fields fall back to defaults via a deep-merge of defaults and
  overrides. A field of the overrides replaces the field of the defaults; where both are
  objects (the thresholds) they are merged entry by entry in the same way. The result is
  read \<open>as InternalDisplayOptions\<close>.
\<close>

definition mergeDeep :: "InternalDisplayOptions \<Rightarrow> DisplayOptions \<Rightarrow> InternalDisplayOptions" where
  "mergeDeep source target =
     \<lparr> i_mobileBreakpoint =
         (case o_mobileBreakpoint target of
            None \<Rightarrow> i_mobileBreakpoint source
          | Some b \<Rightarrow> b),
       i_thresholds =
         (case o_thresholds target of
            None \<Rightarrow> i_thresholds source
          | Some t \<Rightarrow> i_thresholds source ++ t) \<rparr>"

text \<open>\<open>options\<close> is an optional argument: when it is not given it is the defaults.\<close>

definition parseDisplayOptions :: "DisplayOptions option \<Rightarrow> InternalDisplayOptions" where
  "parseDisplayOptions options =
     mergeDeep defaultDisplayOptions
       (case options of
          None \<Rightarrow> as_DisplayOptions defaultDisplayOptions
        | Some given \<Rightarrow> given)"

subsection \<open>Viewport size\<close>

definition getClientWidth :: "Globals \<Rightarrow> Window \<Rightarrow> number" where
  "getClientWidth g w =
     (if IN_BROWSER g then max (clientWidth w) (innerWidth w) else 0)"

definition getClientHeight :: "Globals \<Rightarrow> Window \<Rightarrow> number" where
  "getClientHeight g w =
     (if IN_BROWSER g then max (clientHeight w) (innerHeight w) else 0)"

subsection \<open>Platform\<close>

text \<open>
  Every regular expression of \<open>getPlatform\<close> is a literal or an alternation of literals,
  without flags: it matches when one of the literals occurs somewhere in the string,
  letter case included.
\<close>

fun starts_with :: "string \<Rightarrow> string \<Rightarrow> bool" where
  "starts_with [] s = True"
| "starts_with (p # ps) [] = False"
| "starts_with (p # ps) (c # cs) = (p = c \<and> starts_with ps cs)"

fun occurs_in :: "string \<Rightarrow> string \<Rightarrow> bool" where
  "occurs_in p [] = starts_with p []"
| "occurs_in p (c # cs) = (starts_with p (c # cs) \<or> occurs_in p cs)"

definition match :: "string \<Rightarrow> string list \<Rightarrow> bool" where
  "match ua regexp = list_ex (\<lambda>p. occurs_in p ua) regexp"

definition getPlatform :: "Globals \<Rightarrow> Window \<Rightarrow> DisplayPlatform" where
  "getPlatform g w =
     (let ua = (if IN_BROWSER g then userAgent w else ''ssr'')
      in \<lparr> android = match ua [''android''],
           ios = match ua [''iphone'', ''ipad'', ''ipod''],
           cordova = match ua [''cordova''],
           electron = match ua [''electron''],
           chrome = match ua [''chrome''],
           edge = match ua [''edge''],
           firefox = match ua [''firefox''],
           opera = match ua [''opera''],
           win = match ua [''win''],
           mac = match ua [''mac''],
           linux = match ua [''linux''],
           intersection = SUPPORTS_INTERSECTION g,
           touch = SUPPORTS_TOUCH g,
           ssr = match ua [''ssr''] \<rparr>)"

subsection \<open>The classifier\<close>

text \<open>
  \<open>breakpointValue\<close> of the effect: the mobile cutoff, missing when the name has no
  entry in the thresholds.
\<close>

definition breakpointValue :: "MobileBreakpoint \<Rightarrow> DisplayThresholds \<Rightarrow> number option" where
  "breakpointValue mb t = (case mb of Number n \<Rightarrow> Some n | Breakpoint b \<Rightarrow> t b)"

text \<open>
  The function given to \<open>watchEffect\<close>. It reads the constants \<open>thresholds\<close>,
  \<open>mobileBreakpoint\<close> and \<open>platform\<close> of \<open>createDisplay\<close> and the two refs \<open>height\<close>
  and \<open>width\<close>, and writes every field of the state.
\<close>

definition effect ::
  "DisplayThresholds \<Rightarrow> MobileBreakpoint \<Rightarrow> DisplayPlatform \<Rightarrow> number \<Rightarrow> number \<Rightarrow> DisplayInstance" where
  "effect t mb p h w =
     (let xs = lt w (t XS);
          sm = (lt w (t SM) \<and> \<not> xs);
          md = (lt w (t MD) \<and> \<not> (sm \<or> xs));
          lg = (lt w (t LG) \<and> \<not> (md \<or> sm \<or> xs));
          xl = ge w (t LG);
          name =
            (if xs then XS
             else if sm then SM
             else if md then MD
             else if lg then LG
             else XL);
          mobile =
            (if \<not> ssr p
             then lt w (breakpointValue mb t)
             else android p \<or> ios p \<or> opera p)
      in \<lparr> xs = xs,
           sm = sm,
           md = md,
           lg = lg,
           xl = xl,
           smAndDown = (\<not> (md \<or> lg \<or> xl)),
           smAndUp = (\<not> xs),
           mdAndDown = (\<not> (lg \<or> xl)),
           mdAndUp = (\<not> (xs \<or> sm)),
           lgAndDown = (\<not> xl),
           lgAndUp = (\<not> (xs \<or> sm \<or> md)),
           name = name,
           height = h,
           width = w,
           mobile = mobile,
           mobileBreakpoint = mb,
           platform = p,
           thresholds = t \<rparr>)"

text \<open>
  \<open>createDisplay\<close> reads the size and the platform once and runs the effect; the state it
  returns is what the effect wrote.
\<close>

definition createDisplay :: "Globals \<Rightarrow> Window \<Rightarrow> DisplayOptions option \<Rightarrow> DisplayInstance" where
  "createDisplay g w options =
     (let opts = parseDisplayOptions options;
          h = getClientHeight g w;
          p = getPlatform g w;
          cw = getClientWidth g w
      in effect (i_thresholds opts) (i_mobileBreakpoint opts) p h cw)"

text \<open>
  \<open>onResize\<close> reads the size again; the effect then runs again with the constants of
  \<open>createDisplay\<close>, which are the ones the state echoes. The listener is added to the
  window only when \<open>IN_BROWSER\<close>, so a resize of the window reaches \<open>onResize\<close> only then.
\<close>

definition onResize :: "Globals \<Rightarrow> Window \<Rightarrow> DisplayInstance \<Rightarrow> DisplayInstance" where
  "onResize g w st =
     effect (thresholds st) (mobileBreakpoint st) (platform st)
       (getClientHeight g w) (getClientWidth g w)"

definition resize :: "Globals \<Rightarrow> Window \<Rightarrow> DisplayInstance \<Rightarrow> DisplayInstance" where
  "resize g w st = (if IN_BROWSER g then onResize g w st else st)"

subsection \<open>Injection\<close>

text \<open>
  \<open>Symbol.for('vuetify:display')\<close> is the symbol the global registry keeps under that
  string, so the string identifies it. Vue's \<open>inject\<close> looks the key up among the values
  provided to the current component and gives \<open>undefined\<close> when there is none. The key is
  typed to hold a display state, an object, which \<open>!display\<close> never takes for missing.
\<close>

datatype error = Error string

type_synonym provides = "string \<rightharpoonup> DisplayInstance"

definition VuetifyDisplaySymbol :: string where
  "VuetifyDisplaySymbol = ''vuetify:display''"

definition inject :: "provides \<Rightarrow> string \<Rightarrow> DisplayInstance option" where
  "inject ctx key = ctx key"

definition useDisplay :: "provides \<Rightarrow> error + DisplayInstance" where
  "useDisplay ctx =
     (case inject ctx VuetifyDisplaySymbol of
        None \<Rightarrow> Inl (Error ''Could not find Vuetify display injection'')
      | Some display \<Rightarrow> Inr display)"

subsection \<open>Vocabulary of the properties\<close>

text \<open>The four boundaries are present and \<open>xs <= sm <= md <= lg\<close>.\<close>

definition ascending :: "DisplayThresholds \<Rightarrow> bool" where
  "ascending t =
     (case (t XS, t SM, t MD, t LG) of
        (Some a, Some b, Some c, Some d) \<Rightarrow> a \<le> b \<and> b \<le> c \<and> c \<le> d
      | _ \<Rightarrow> False)"

text \<open>The bucket flag of the state that carries a given label.\<close>

definition bucket_flag :: "DisplayInstance \<Rightarrow> DisplayBreakpoint \<Rightarrow> bool" where
  "bucket_flag st b =
     (case b of XS \<Rightarrow> xs st | SM \<Rightarrow> sm st | MD \<Rightarrow> md st | LG \<Rightarrow> lg st | XL \<Rightarrow> xl st)"

text \<open>How many of the five bucket flags are true.\<close>

definition true_buckets :: "DisplayInstance \<Rightarrow> nat" where
  "true_buckets st = length (filter (\<lambda>f. f) [xs st, sm st, md st, lg st, xl st])"

text \<open>What the overrides supply for a threshold, if anything.\<close>

definition supplied :: "DisplayOptions \<Rightarrow> DisplayBreakpoint \<Rightarrow> number option" where
  "supplied opts b = (case o_thresholds opts of None \<Rightarrow> None | Some t \<Rightarrow> t b)"

subsection \<open>Example hosts\<close>

definition browser :: Globals where
  "browser = \<lparr> IN_BROWSER = True, SUPPORTS_INTERSECTION = True, SUPPORTS_TOUCH = False \<rparr>"

definition server :: Globals where
  "server = \<lparr> IN_BROWSER = False, SUPPORTS_INTERSECTION = False, SUPPORTS_TOUCH = False \<rparr>"

text \<open>A window \<open>n\<close> pixels wide whose vertical scrollbar takes 15 of them.\<close>

definition viewport :: "number \<Rightarrow> string \<Rightarrow> Window" where
  "viewport n ua =
     \<lparr> clientWidth = n - 15, innerWidth = n, clientHeight = 785, innerHeight = 800,
       userAgent = ua \<rparr>"


definition firefox_ua :: string where
  "firefox_ua = ''Mozilla/5.0 (X11; Linux x86_64; rv:91.0) Gecko/20100101 Firefox/91.0''"

definition android_ssr_ua :: string where
  "android_ssr_ua = ''Mozilla/5.0 (Linux; android 11) ssr''"

section \<open>Properties\<close>

subsection \<open>Auxiliary facts\<close>

text \<open>The bucket flags in terms of the comparisons alone.\<close>

lemma effect_buckets:
  "xs (effect t mb p h w) = lt w (t XS)"
  "sm (effect t mb p h w) = (lt w (t SM) \<and> \<not> lt w (t XS))"
  "md (effect t mb p h w) = (lt w (t MD) \<and> \<not> lt w (t SM) \<and> \<not> lt w (t XS))"
  "lg (effect t mb p h w) = (lt w (t LG) \<and> \<not> lt w (t MD) \<and> \<not> lt w (t SM) \<and> \<not> lt w (t XS))"
  "xl (effect t mb p h w) = ge w (t LG)"
  by (auto simp add: effect_def Let_def)

lemmas opts_defs =
  parseDisplayOptions_def mergeDeep_def defaultDisplayOptions_def as_DisplayOptions_def

lemmas host_defs =
  browser_def server_def viewport_def getClientWidth_def getClientHeight_def

lemma default_thresholds_ascending: "ascending (i_thresholds (parseDisplayOptions None))"
  by (simp add: ascending_def opts_defs)

lemma platform_firefox: "\<not> ssr (getPlatform browser (viewport n firefox_ua))"
  by (simp add: getPlatform_def Let_def match_def browser_def viewport_def firefox_ua_def)

lemma platform_android_ssr:
  "ssr (getPlatform browser (viewport n android_ssr_ua))"
  "android (getPlatform browser (viewport n android_ssr_ua))"
  by (simp_all add: getPlatform_def Let_def match_def browser_def viewport_def
      android_ssr_ua_def)

lemma platform_server:
  "\<not> IN_BROWSER g \<Longrightarrow> ssr (getPlatform g w)"
  "\<not> IN_BROWSER g \<Longrightarrow> \<not> android (getPlatform g w)"
  "\<not> IN_BROWSER g \<Longrightarrow> \<not> ios (getPlatform g w)"
  "\<not> IN_BROWSER g \<Longrightarrow> \<not> opera (getPlatform g w)"
  by (simp_all add: getPlatform_def Let_def match_def)

text \<open>
  The matcher is substring search: a literal matches exactly the strings that contain it.
\<close>

lemma starts_with_iff: "starts_with p s \<longleftrightarrow> (\<exists>b. s = p @ b)"
  by (induction p s rule: starts_with.induct) auto

lemma occurs_in_iff: "occurs_in p s \<longleftrightarrow> (\<exists>a b. s = a @ p @ b)"
proof (induction s)
  case Nil
  show ?case by (simp add: starts_with_iff)
next
  case (Cons c cs)
  have "(\<exists>a b. c # cs = a @ p @ b) \<longleftrightarrow> (\<exists>b. c # cs = p @ b) \<or> (\<exists>a b. cs = a @ p @ b)"
  proof
    assume "\<exists>a b. c # cs = a @ p @ b"
    then obtain a b where ab: "c # cs = a @ p @ b" by blast
    show "(\<exists>b. c # cs = p @ b) \<or> (\<exists>a b. cs = a @ p @ b)"
    proof (cases a)
      case Nil
      with ab show ?thesis by auto
    next
      case (Cons x a')
      with ab have "cs = a' @ p @ b" by simp
      then show ?thesis by blast
    qed
  next
    assume "(\<exists>b. c # cs = p @ b) \<or> (\<exists>a b. cs = a @ p @ b)"
    then show "\<exists>a b. c # cs = a @ p @ b"
    proof
      assume "\<exists>b. c # cs = p @ b"
      then obtain b where "c # cs = [] @ p @ b" by auto
      then show ?thesis by blast
    next
      assume "\<exists>a b. cs = a @ p @ b"
      then obtain a b where "c # cs = (c # a) @ p @ b" by auto
      then show ?thesis by blast
    qed
  qed
  with Cons show ?case by (simp add: starts_with_iff)
qed

lemma match_iff: "match ua regexp \<longleftrightarrow> (\<exists>p \<in> set regexp. \<exists>a b. ua = a @ p @ b)"
  by (simp add: match_def list_ex_iff occurs_in_iff)

text \<open>The resolved options, field by field.\<close>

lemma parse_None: "parseDisplayOptions None = defaultDisplayOptions"
  by (simp add: opts_defs)

lemma parse_Some:
  "i_thresholds (parseDisplayOptions (Some opts)) b =
     (case supplied opts b of
        None \<Rightarrow> i_thresholds defaultDisplayOptions b
      | Some v \<Rightarrow> Some v)"
  "i_mobileBreakpoint (parseDisplayOptions (Some opts)) =
     (case o_mobileBreakpoint opts of
        None \<Rightarrow> i_mobileBreakpoint defaultDisplayOptions
      | Some m \<Rightarrow> m)"
  by (cases "o_thresholds opts"; simp add: parseDisplayOptions_def mergeDeep_def supplied_def map_add_def)+

text \<open>A missing cutoff, and what the state echoes of its inputs.\<close>

lemma effect_cutoff_missing:
  "breakpointValue mb t = None \<Longrightarrow> \<not> ssr p \<Longrightarrow> \<not> mobile (effect t mb p h w)"
  by (simp add: effect_def Let_def lt_def)

lemma createDisplay_echo:
  "thresholds (createDisplay g w options) = i_thresholds (parseDisplayOptions options)"
  "mobileBreakpoint (createDisplay g w options) = i_mobileBreakpoint (parseDisplayOptions options)"
  "platform (createDisplay g w options) = getPlatform g w"
  "width (createDisplay g w options) = getClientWidth g w"
  "height (createDisplay g w options) = getClientHeight g w"
  by (simp_all add: createDisplay_def effect_def Let_def)

subsection \<open>Buckets\<close>

text \<open>
  C1. For every width and all thresholds whose four boundaries are ascending
  (\<open>xs <= sm <= md <= lg\<close>), exactly one of the five bucket flags \<open>xs\<close>, \<open>sm\<close>, \<open>md\<close>,
  \<open>lg\<close>, \<open>xl\<close> that the effect computes is true.
\<close>

theorem exactly_one_bucket:
  "ascending t \<Longrightarrow> true_buckets (effect t mb p h w) = 1"
  unfolding true_buckets_def effect_buckets
  by (auto simp add: ascending_def lt_def ge_def split: option.splits)

theorem exactly_one_bucket_witness:
  "ascending (i_thresholds (parseDisplayOptions None)) \<and>
   true_buckets (createDisplay browser (viewport 1000 firefox_ua) None) = 1"
  using default_thresholds_ascending
    exactly_one_bucket [OF default_thresholds_ascending]
  by (simp add: createDisplay_def Let_def)

text \<open>
  C2. With ascending thresholds, \<open>name\<close> is the label of the single true bucket flag:
  the flag labelled \<open>b\<close> is true exactly when \<open>name\<close> is \<open>b\<close>, for each of the five
  labels.
\<close>

theorem name_is_true_bucket:
  "ascending t \<Longrightarrow> bucket_flag (effect t mb p h w) b = (name (effect t mb p h w) = b)"
  by (cases b)
    (auto simp add: bucket_flag_def effect_def Let_def ascending_def lt_def ge_def
      split: option.splits)

theorem name_is_true_bucket_witness:
  "ascending (i_thresholds (parseDisplayOptions None)) \<and>
   md (createDisplay browser (viewport 1000 firefox_ua) None) \<and>
   name (createDisplay browser (viewport 1000 firefox_ua) None) = MD"
proof -
  have m: "md (createDisplay browser (viewport 1000 firefox_ua) None)"
    by (simp add: createDisplay_def Let_def effect_buckets lt_def opts_defs host_defs)
  show ?thesis
    using default_thresholds_ascending m
      name_is_true_bucket [OF default_thresholds_ascending, of _ _ _ _ MD]
    by (simp add: createDisplay_def Let_def bucket_flag_def)
qed

subsection \<open>Cumulative flags\<close>

text \<open>
  C3, as amended. For every width and all thresholds the six cumulative flags are the
  stated negations of bucket flags: \<open>smAndDown = NOT (md OR lg OR xl)\<close>,
  \<open>smAndUp = NOT xs\<close>, \<open>mdAndDown = NOT (lg OR xl)\<close>, \<open>mdAndUp = NOT (xs OR sm)\<close>,
  \<open>lgAndDown = NOT xl\<close>, \<open>lgAndUp = NOT (xs OR sm OR md)\<close>. When the thresholds are
  ascending they are also consistent with the bucket flags: each cumulative flag is true
  exactly when the true bucket is one of those it names, so that when \<open>md\<close> is true both
  \<open>mdAndUp\<close> and \<open>mdAndDown\<close> are true.
\<close>

theorem cumulative_flags:
  assumes "st = effect t mb p h w"
  shows "smAndDown st = (\<not> (md st \<or> lg st \<or> xl st)) \<and>
         smAndUp st = (\<not> xs st) \<and>
         mdAndDown st = (\<not> (lg st \<or> xl st)) \<and>
         mdAndUp st = (\<not> (xs st \<or> sm st)) \<and>
         lgAndDown st = (\<not> xl st) \<and>
         lgAndUp st = (\<not> (xs st \<or> sm st \<or> md st)) \<and>
         (ascending t \<longrightarrow>
            smAndDown st = (xs st \<or> sm st) \<and>
            smAndUp st = (sm st \<or> md st \<or> lg st \<or> xl st) \<and>
            mdAndDown st = (xs st \<or> sm st \<or> md st) \<and>
            mdAndUp st = (md st \<or> lg st \<or> xl st) \<and>
            lgAndDown st = (xs st \<or> sm st \<or> md st \<or> lg st) \<and>
            lgAndUp st = (lg st \<or> xl st))"
proof -
  have eqs:
    "smAndDown st = (\<not> (md st \<or> lg st \<or> xl st))" "smAndUp st = (\<not> xs st)"
    "mdAndDown st = (\<not> (lg st \<or> xl st))" "mdAndUp st = (\<not> (xs st \<or> sm st))"
    "lgAndDown st = (\<not> xl st)" "lgAndUp st = (\<not> (xs st \<or> sm st \<or> md st))"
    by (simp_all add: assms effect_def Let_def)
  have "ascending t \<Longrightarrow> true_buckets st = 1"
    unfolding assms true_buckets_def effect_buckets
    by (auto simp add: ascending_def lt_def ge_def split: option.splits)
  then have part: "ascending t \<Longrightarrow>
      (xs st \<or> sm st \<or> md st \<or> lg st \<or> xl st) \<and>
      \<not> (xs st \<and> sm st) \<and> \<not> (xs st \<and> md st) \<and> \<not> (xs st \<and> lg st) \<and> \<not> (xs st \<and> xl st) \<and>
      \<not> (sm st \<and> md st) \<and> \<not> (sm st \<and> lg st) \<and> \<not> (sm st \<and> xl st) \<and>
      \<not> (md st \<and> lg st) \<and> \<not> (md st \<and> xl st) \<and> \<not> (lg st \<and> xl st)"
    by (auto simp add: true_buckets_def split: if_splits)
  show ?thesis
    using eqs part by blast
qed

theorem cumulative_flags_witness:
  "ascending (i_thresholds (parseDisplayOptions None)) \<and>
   md (createDisplay browser (viewport 1000 firefox_ua) None) \<and>
   mdAndUp (createDisplay browser (viewport 1000 firefox_ua) None) \<and>
   mdAndDown (createDisplay browser (viewport 1000 firefox_ua) None)"
proof -
  have m: "md (createDisplay browser (viewport 1000 firefox_ua) None)"
    by (simp add: createDisplay_def Let_def effect_buckets lt_def opts_defs host_defs)
  have st: "createDisplay browser (viewport 1000 firefox_ua) None =
      effect (i_thresholds (parseDisplayOptions None))
        (i_mobileBreakpoint (parseDisplayOptions None))
        (getPlatform browser (viewport 1000 firefox_ua))
        (getClientHeight browser (viewport 1000 firefox_ua))
        (getClientWidth browser (viewport 1000 firefox_ua))"
    by (simp add: createDisplay_def Let_def)
  show ?thesis
    using default_thresholds_ascending m cumulative_flags [OF st]
    by blast
qed

text \<open>
  C3 as the claim states it, for all thresholds, fails: with \<open>lg\<close> below \<open>md\<close>
  (\<open>xs: 600, sm: 960, md: 1280, lg: 1000\<close>) and width 1100, \<open>md\<close> is true and
  \<open>mdAndDown\<close> is false.
\<close>

theorem cumulative_flags_counterexample:
  "md (effect [XS \<mapsto> 600, SM \<mapsto> 960, MD \<mapsto> 1280, LG \<mapsto> 1000] (Breakpoint MD)
         (getPlatform browser (viewport 1100 firefox_ua)) 800 1100) \<and>
   \<not> mdAndDown (effect [XS \<mapsto> 600, SM \<mapsto> 960, MD \<mapsto> 1280, LG \<mapsto> 1000] (Breakpoint MD)
         (getPlatform browser (viewport 1100 firefox_ua)) 800 1100)"
  by (simp add: effect_def Let_def lt_def ge_def)

subsection \<open>Mobile\<close>

text \<open>
  C4. The mobile cutoff is \<open>mobileBreakpoint\<close> itself when it is a number and the value
  the thresholds store under it when it is a name. When the platform is not
  server-rendered (\<open>ssr\<close> false), \<open>mobile\<close> is \<open>width < cutoff\<close>; when it is, \<open>mobile\<close> is
  \<open>android OR ios OR opera\<close>, whatever the width.
\<close>

theorem mobile_policy:
  "breakpointValue (Number n) t = Some n \<and>
   breakpointValue (Breakpoint b) t = t b \<and>
   (\<not> ssr p \<longrightarrow> mobile (effect t mb p h w) = lt w (breakpointValue mb t)) \<and>
   (ssr p \<longrightarrow> mobile (effect t mb p h w) = (android p \<or> ios p \<or> opera p))"
  by (simp add: breakpointValue_def effect_def Let_def)

theorem mobile_policy_witness:
  "\<not> ssr (getPlatform browser (viewport 1024 firefox_ua)) \<and>
   \<not> mobile (effect (i_thresholds (parseDisplayOptions None)) (Number 580)
        (getPlatform browser (viewport 1024 firefox_ua)) 800 1024) \<and>
   mobile (effect (i_thresholds (parseDisplayOptions None)) (Breakpoint MD)
        (getPlatform browser (viewport 1024 firefox_ua)) 800 1024) \<and>
   ssr (getPlatform browser (viewport 1024 android_ssr_ua)) \<and>
   mobile (effect (i_thresholds (parseDisplayOptions None)) (Number 580)
        (getPlatform browser (viewport 1024 android_ssr_ua)) 800 1024)"
  using platform_firefox [of 1024] platform_android_ssr [of 1024]
    mobile_policy [of 580 "i_thresholds (parseDisplayOptions None)" MD
      "getPlatform browser (viewport 1024 firefox_ua)" "Number 580" 800 1024]
    mobile_policy [of 580 "i_thresholds (parseDisplayOptions None)" MD
      "getPlatform browser (viewport 1024 firefox_ua)" "Breakpoint MD" 800 1024]
    mobile_policy [of 580 "i_thresholds (parseDisplayOptions None)" MD
      "getPlatform browser (viewport 1024 android_ssr_ua)" "Number 580" 800 1024]
  by (simp add: lt_def opts_defs)

subsection \<open>Resizing with the default options\<close>

text \<open>
  C5, as amended. With the default options (thresholds \<open>xs: 600, sm: 960, md: 1280,
  lg: 1920\<close>, \<open>mobileBreakpoint\<close> \<open>md\<close>, so the cutoff is 1280) and a window
  (\<open>IN_BROWSER\<close> true), a display created at width 500 has \<open>name\<close> \<open>xs\<close>, and after a
  resize to width 1500 its \<open>name\<close> is \<open>lg\<close>: 1500 is not below \<open>md\<close> = 1280 and is below
  \<open>lg\<close> = 1920. When moreover the platform is not server-rendered (\<open>platform.ssr\<close> false:
  the \<open>userAgent\<close> does not contain \<open>ssr\<close>), \<open>mobile\<close> is true at width 500 and false
  after the resize.
\<close>

theorem resize_500_1500:
  assumes "IN_BROWSER g"
    and "getClientWidth g w0 = 500" and "getClientWidth g w1 = 1500"
  shows "thresholds (createDisplay g w0 None) =
           [XS \<mapsto> 600, SM \<mapsto> 960, MD \<mapsto> 1280, LG \<mapsto> 1920] \<and>
         mobileBreakpoint (createDisplay g w0 None) = Breakpoint MD \<and>
         breakpointValue (mobileBreakpoint (createDisplay g w0 None))
           (thresholds (createDisplay g w0 None)) = Some 1280 \<and>
         name (createDisplay g w0 None) = XS \<and>
         name (resize g w1 (createDisplay g w0 None)) = LG \<and>
         (\<not> ssr (platform (createDisplay g w0 None)) \<longrightarrow>
            mobile (createDisplay g w0 None) \<and>
            \<not> mobile (resize g w1 (createDisplay g w0 None)))"
  using assms
  by (simp add: resize_def onResize_def createDisplay_def effect_def Let_def lt_def ge_def
      opts_defs breakpointValue_def)

theorem resize_500_1500_witness:
  "IN_BROWSER browser \<and>
   getClientWidth browser (viewport 500 firefox_ua) = 500 \<and>
   getClientWidth browser (viewport 1500 firefox_ua) = 1500 \<and>
   \<not> ssr (platform (createDisplay browser (viewport 500 firefox_ua) None)) \<and>
   name (createDisplay browser (viewport 500 firefox_ua) None) = XS \<and>
   mobile (createDisplay browser (viewport 500 firefox_ua) None) \<and>
   name (resize browser (viewport 1500 firefox_ua)
      (createDisplay browser (viewport 500 firefox_ua) None)) = LG \<and>
   \<not> mobile (resize browser (viewport 1500 firefox_ua)
      (createDisplay browser (viewport 500 firefox_ua) None))"
proof -
  have a: "IN_BROWSER browser"
    by (simp add: browser_def)
  have b: "getClientWidth browser (viewport 500 firefox_ua) = 500"
    by (simp add: host_defs)
  have c: "getClientWidth browser (viewport 1500 firefox_ua) = 1500"
    by (simp add: host_defs)
  have p: "\<not> ssr (platform (createDisplay browser (viewport 500 firefox_ua) None))"
    by (simp add: createDisplay_echo platform_firefox)
  show ?thesis
    using a b c p resize_500_1500 [OF a b c]
    by simp
qed

text \<open>
  C5 as the claim states it fails twice. In a window whose \<open>userAgent\<close> has no \<open>ssr\<close>,
  the name after the resize to 1500 is not \<open>md\<close>. In a window whose \<open>userAgent\<close>
  contains \<open>ssr\<close> and \<open>android\<close>, \<open>mobile\<close> is still true after the resize to 1500.
\<close>

theorem resize_500_1500_counterexample:
  "IN_BROWSER browser \<and>
   name (resize browser (viewport 1500 firefox_ua)
      (createDisplay browser (viewport 500 firefox_ua) None)) \<noteq> MD \<and>
   mobile (resize browser (viewport 1500 android_ssr_ua)
      (createDisplay browser (viewport 500 android_ssr_ua) None))"
proof -
  have n: "name (resize browser (viewport 1500 firefox_ua)
      (createDisplay browser (viewport 500 firefox_ua) None)) \<noteq> MD"
    by (simp add: resize_def onResize_def createDisplay_def effect_def Let_def lt_def ge_def
        opts_defs host_defs)
  have m: "mobile (resize browser (viewport 1500 android_ssr_ua)
      (createDisplay browser (viewport 500 android_ssr_ua) None))"
    using platform_android_ssr [of 500]
    by (simp add: resize_def onResize_def createDisplay_echo browser_def)
      (simp add: effect_def Let_def)
  show ?thesis
    using n m by (simp add: browser_def)
qed

subsection \<open>Custom thresholds\<close>

text \<open>
  C6, as amended. With thresholds \<open>xs: 0, sm: 340, md: 540, lg: 800\<close> and width 339, the
  \<open>sm\<close> flag is true, the \<open>xs\<close>, \<open>md\<close>, \<open>lg\<close> and \<open>xl\<close> flags are false and the name is
  \<open>sm\<close>: 339 is not below the \<open>xs\<close> boundary 0 and is below the \<open>sm\<close> boundary 340.
\<close>

theorem custom_thresholds_339:
  "\<not> xs (effect [XS \<mapsto> 0, SM \<mapsto> 340, MD \<mapsto> 540, LG \<mapsto> 800] mb p h 339) \<and>
   sm (effect [XS \<mapsto> 0, SM \<mapsto> 340, MD \<mapsto> 540, LG \<mapsto> 800] mb p h 339) \<and>
   \<not> md (effect [XS \<mapsto> 0, SM \<mapsto> 340, MD \<mapsto> 540, LG \<mapsto> 800] mb p h 339) \<and>
   \<not> lg (effect [XS \<mapsto> 0, SM \<mapsto> 340, MD \<mapsto> 540, LG \<mapsto> 800] mb p h 339) \<and>
   \<not> xl (effect [XS \<mapsto> 0, SM \<mapsto> 340, MD \<mapsto> 540, LG \<mapsto> 800] mb p h 339) \<and>
   name (effect [XS \<mapsto> 0, SM \<mapsto> 340, MD \<mapsto> 540, LG \<mapsto> 800] mb p h 339) = SM"
  by (simp add: effect_def Let_def lt_def ge_def)

text \<open>
  C6 as the claim states it fails: at those thresholds and width 339, \<open>xs\<close> is false.
\<close>

theorem custom_thresholds_339_counterexample:
  "\<not> xs (effect [XS \<mapsto> 0, SM \<mapsto> 340, MD \<mapsto> 540, LG \<mapsto> 800] (Breakpoint MD)
         (getPlatform browser (viewport 339 firefox_ua)) 800 339)"
  by (simp add: effect_def Let_def lt_def)

subsection \<open>Without a live viewport\<close>



subsection \<open>Looking the display up\<close>

text \<open>
  C8. \<open>useDisplay\<close> raises the error \<open>Could not find Vuetify display injection\<close> exactly
  when the lookup of the display key finds nothing, it raises no other error, and it
  returns a display exactly when that display is the one registered under the key.
\<close>

theorem useDisplay_not_initialized:
  "(useDisplay ctx = Inl (Error ''Could not find Vuetify display injection'')) =
     (inject ctx VuetifyDisplaySymbol = None) \<and>
   isl (useDisplay ctx) = (inject ctx VuetifyDisplaySymbol = None) \<and>
   (useDisplay ctx = Inr d) = (inject ctx VuetifyDisplaySymbol = Some d)"
  by (simp add: useDisplay_def split: option.splits)

theorem useDisplay_not_initialized_witness:
  "useDisplay Map.empty = Inl (Error ''Could not find Vuetify display injection'') \<and>
   useDisplay [VuetifyDisplaySymbol \<mapsto> createDisplay browser (viewport 1000 firefox_ua) None] =
     Inr (createDisplay browser (viewport 1000 firefox_ua) None)"
  using useDisplay_not_initialized [of Map.empty]
    useDisplay_not_initialized
      [of "[VuetifyDisplaySymbol \<mapsto> createDisplay browser (viewport 1000 firefox_ua) None]"
        "createDisplay browser (viewport 1000 firefox_ua) None"]
  by (simp add: inject_def)

subsection \<open>Resolving the options\<close>

text \<open>
  C9. The default thresholds are \<open>xs: 600, sm: 960, md: 1280, lg: 1920\<close> and the default
  \<open>mobileBreakpoint\<close> is \<open>md\<close>; without options the defaults are the result. With options,
  each threshold that is not supplied has its default, each supplied threshold has the
  supplied value, and \<open>mobileBreakpoint\<close> is \<open>md\<close> when not supplied and the supplied
  selector otherwise.
\<close>

theorem parseDisplayOptions_defaults:
  "i_thresholds defaultDisplayOptions = [XS \<mapsto> 600, SM \<mapsto> 960, MD \<mapsto> 1280, LG \<mapsto> 1920] \<and>
   i_mobileBreakpoint defaultDisplayOptions = Breakpoint MD \<and>
   parseDisplayOptions None = defaultDisplayOptions \<and>
   (supplied opts b = None \<longrightarrow>
      i_thresholds (parseDisplayOptions (Some opts)) b = i_thresholds defaultDisplayOptions b) \<and>
   (supplied opts b = Some v \<longrightarrow>
      i_thresholds (parseDisplayOptions (Some opts)) b = Some v) \<and>
   (o_mobileBreakpoint opts = None \<longrightarrow>
      i_mobileBreakpoint (parseDisplayOptions (Some opts)) = Breakpoint MD) \<and>
   (o_mobileBreakpoint opts = Some m \<longrightarrow>
      i_mobileBreakpoint (parseDisplayOptions (Some opts)) = m)"
  by (simp add: parse_None parse_Some) (simp add: defaultDisplayOptions_def)

theorem parseDisplayOptions_defaults_witness:
  "supplied \<lparr> o_mobileBreakpoint = None, o_thresholds = Some [SM \<mapsto> 700] \<rparr> XS = None \<and>
   i_thresholds (parseDisplayOptions
      (Some \<lparr> o_mobileBreakpoint = None, o_thresholds = Some [SM \<mapsto> 700] \<rparr>)) XS = Some 600 \<and>
   supplied \<lparr> o_mobileBreakpoint = None, o_thresholds = Some [SM \<mapsto> 700] \<rparr> SM = Some 700 \<and>
   i_thresholds (parseDisplayOptions
      (Some \<lparr> o_mobileBreakpoint = None, o_thresholds = Some [SM \<mapsto> 700] \<rparr>)) SM = Some 700 \<and>
   i_mobileBreakpoint (parseDisplayOptions
      (Some \<lparr> o_mobileBreakpoint = None, o_thresholds = Some [SM \<mapsto> 700] \<rparr>)) = Breakpoint MD \<and>
   i_mobileBreakpoint (parseDisplayOptions
      (Some \<lparr> o_mobileBreakpoint = Some (Number 580), o_thresholds = None \<rparr>)) = Number 580"
  using
    parseDisplayOptions_defaults
      [of "\<lparr> o_mobileBreakpoint = None, o_thresholds = Some [SM \<mapsto> 700] \<rparr>" XS 0 "Breakpoint MD"]
    parseDisplayOptions_defaults
      [of "\<lparr> o_mobileBreakpoint = None, o_thresholds = Some [SM \<mapsto> 700] \<rparr>" SM 700 "Breakpoint MD"]
    parseDisplayOptions_defaults
      [of "\<lparr> o_mobileBreakpoint = Some (Number 580), o_thresholds = None \<rparr>" XS 0 "Number 580"]
  by (simp add: supplied_def defaultDisplayOptions_def)

subsection \<open>The mobile breakpoint \<open>xl\<close>\<close>

text \<open>
  C10, as amended. The default thresholds have no entry for \<open>xl\<close>. When
  \<open>mobileBreakpoint\<close> is the name \<open>xl\<close> and the options supply no \<open>xl\<close> threshold, the
  cutoff lookup gives no value; when moreover the platform is not server-rendered
  (\<open>platform.ssr\<close> false), the comparison \<open>width < cutoff\<close> is false and \<open>mobile\<close> is
  false at every width: at creation and after any resize.
\<close>

theorem mobile_breakpoint_xl:
  assumes "o_mobileBreakpoint opts = Some (Breakpoint XL)"
    and "supplied opts XL = None"
    and "st = createDisplay g w (Some opts)"
  shows "i_thresholds defaultDisplayOptions XL = None \<and>
         breakpointValue (mobileBreakpoint st) (thresholds st) = None \<and>
         (\<not> ssr (platform st) \<longrightarrow> \<not> mobile st \<and> \<not> mobile (resize g w' st))"
proof -
  have d: "i_thresholds defaultDisplayOptions XL = None"
    by (simp add: defaultDisplayOptions_def)
  have mb: "mobileBreakpoint st = Breakpoint XL"
    using assms(1) by (simp add: assms(3) createDisplay_echo parse_Some)
  have t: "thresholds st XL = None"
    using assms(2)
    by (simp add: assms(3) createDisplay_echo parse_Some defaultDisplayOptions_def)
  have c: "breakpointValue (mobileBreakpoint st) (thresholds st) = None"
    by (simp add: mb t breakpointValue_def)
  have m: "\<not> mobile st" if "\<not> ssr (platform st)"
  proof -
    have "\<not> ssr (getPlatform g w)"
      using that by (simp add: assms(3) createDisplay_echo)
    moreover have "breakpointValue (i_mobileBreakpoint (parseDisplayOptions (Some opts)))
        (i_thresholds (parseDisplayOptions (Some opts))) = None"
      using c by (simp add: assms(3) createDisplay_echo)
    ultimately show ?thesis
      by (simp add: assms(3) createDisplay_def Let_def effect_cutoff_missing)
  qed
  have r: "\<not> mobile (resize g w' st)" if "\<not> ssr (platform st)"
    using c that m [OF that]
    by (simp add: resize_def onResize_def effect_cutoff_missing)
  show ?thesis
    using d c m r by simp
qed

theorem mobile_breakpoint_xl_witness:
  "\<not> ssr (platform (createDisplay browser (viewport 500 firefox_ua)
        (Some \<lparr> o_mobileBreakpoint = Some (Breakpoint XL), o_thresholds = None \<rparr>))) \<and>
   breakpointValue
     (mobileBreakpoint (createDisplay browser (viewport 500 firefox_ua)
        (Some \<lparr> o_mobileBreakpoint = Some (Breakpoint XL), o_thresholds = None \<rparr>)))
     (thresholds (createDisplay browser (viewport 500 firefox_ua)
        (Some \<lparr> o_mobileBreakpoint = Some (Breakpoint XL), o_thresholds = None \<rparr>))) = None \<and>
   \<not> mobile (createDisplay browser (viewport 500 firefox_ua)
        (Some \<lparr> o_mobileBreakpoint = Some (Breakpoint XL), o_thresholds = None \<rparr>)) \<and>
   \<not> mobile (resize browser (viewport 5000 firefox_ua)
        (createDisplay browser (viewport 500 firefox_ua)
          (Some \<lparr> o_mobileBreakpoint = Some (Breakpoint XL), o_thresholds = None \<rparr>)))"
proof -
  have p: "\<not> ssr (platform (createDisplay browser (viewport 500 firefox_ua)
        (Some \<lparr> o_mobileBreakpoint = Some (Breakpoint XL), o_thresholds = None \<rparr>)))"
    by (simp add: createDisplay_echo platform_firefox)
  show ?thesis
    using p
      mobile_breakpoint_xl
        [of "\<lparr> o_mobileBreakpoint = Some (Breakpoint XL), o_thresholds = None \<rparr>"
          _ browser "viewport 500 firefox_ua" "viewport 5000 firefox_ua", OF _ _ refl]
    by (simp add: supplied_def)
qed

text \<open>
  C10 as the claim states it fails: in a window (\<open>IN_BROWSER\<close> true) whose \<open>userAgent\<close>
  contains \<open>ssr\<close> and \<open>android\<close>, with \<open>mobileBreakpoint\<close> \<open>xl\<close> and no \<open>xl\<close> threshold,
  the cutoff is missing and \<open>mobile\<close> is true at width 500.
\<close>

theorem mobile_breakpoint_xl_counterexample:
  "IN_BROWSER browser \<and>
   width (createDisplay browser (viewport 500 android_ssr_ua)
        (Some \<lparr> o_mobileBreakpoint = Some (Breakpoint XL), o_thresholds = None \<rparr>)) = 500 \<and>
   breakpointValue
     (mobileBreakpoint (createDisplay browser (viewport 500 android_ssr_ua)
        (Some \<lparr> o_mobileBreakpoint = Some (Breakpoint XL), o_thresholds = None \<rparr>)))
     (thresholds (createDisplay browser (viewport 500 android_ssr_ua)
        (Some \<lparr> o_mobileBreakpoint = Some (Breakpoint XL), o_thresholds = None \<rparr>))) = None \<and>
   mobile (createDisplay browser (viewport 500 android_ssr_ua)
        (Some \<lparr> o_mobileBreakpoint = Some (Breakpoint XL), o_thresholds = None \<rparr>))"
proof -
  have c: "breakpointValue
     (mobileBreakpoint (createDisplay browser (viewport 500 android_ssr_ua)
        (Some \<lparr> o_mobileBreakpoint = Some (Breakpoint XL), o_thresholds = None \<rparr>)))
     (thresholds (createDisplay browser (viewport 500 android_ssr_ua)
        (Some \<lparr> o_mobileBreakpoint = Some (Breakpoint XL), o_thresholds = None \<rparr>))) = None"
    by (simp add: createDisplay_echo parse_Some supplied_def defaultDisplayOptions_def
        breakpointValue_def)
  have m: "mobile (createDisplay browser (viewport 500 android_ssr_ua)
        (Some \<lparr> o_mobileBreakpoint = Some (Breakpoint XL), o_thresholds = None \<rparr>))"
    using platform_android_ssr [of 500]
    by (simp add: createDisplay_def effect_def Let_def)
  show ?thesis
    using c m by (simp add: createDisplay_echo host_defs)
qed

end
